theory Spec2Isabelle
  imports Main "HOL-Library.Word"
begin

section \<open>The data model of \<open>map_data.h\<close>\<close>

text \<open>
  \<open>map_data.h\<close> declares class \<open>MapData\<close>, the model component of the map editor.
  Its members are embedded as a record; \<open>uint32\<close> members and arguments are 32-bit
  words, so that \<open>layer_index - 1\<close> and \<open>layer_index + 1\<close> wrap around as in C++.
  A \<open>QString\<close> is a \<open>string\<close>.
\<close>

type_synonym uint32 = "32 word"
type_synonym QString = string

text \<open>
  Modelled from the spec: class \<open>TileLayerProperties\<close> is declared in \<open>tile_layer.h\<close>,
  which the header includes. The spec gives its members: a name, a visibility flag and a
  collision-enabled flag. \<open>SetVisible\<close> and \<open>SetCollisionEnabled\<close> are its setters, called
  by \<open>ShowTileLayer\<close>, \<open>HideTileLayer\<close>, \<open>EnableTileLayerCollision\<close> and
  \<open>DisableTileLayerCollision\<close>.
\<close>

record TileLayerProperties =
  layer_name :: QString
  visible :: bool
  collision_enabled :: bool

definition SetVisible :: "bool \<Rightarrow> TileLayerProperties \<Rightarrow> TileLayerProperties" where
  "SetVisible value p = p\<lparr>visible := value\<rparr>"

definition SetCollisionEnabled :: "bool \<Rightarrow> TileLayerProperties \<Rightarrow> TileLayerProperties" where
  "SetCollisionEnabled value p = p\<lparr>collision_enabled := value\<rparr>"

text \<open>
  Modelled from the spec: class \<open>TileLayer\<close> (\<open>tile_layer.h\<close>) is a rectangular grid of
  tile identifiers: a list of rows from top to bottom, each row a list of tiles from left
  to right.
\<close>

type_synonym TileLayer = "int list list"

text \<open>
  Modelled from the spec: class \<open>TileContext\<close> (\<open>tile_context.h\<close>) has an identifier, a
  display name, the identifier of the context it inherits from (or the sentinel
  \<open>INVALID_CONTEXT\<close>) and one \<open>TileLayer\<close> per layer slot. The sentinel is declared in
  \<open>editor_utils.h\<close>; the spec only says that it is no identifier of a context (those lie
  in 1 .. \<open>MAX_CONTEXTS\<close>), and nothing below depends on the value chosen here.
\<close>

definition MAX_CONTEXTS :: nat where
  "MAX_CONTEXTS = 32"

definition INVALID_CONTEXT :: int where
  "INVALID_CONTEXT = - 1"

record TileContext =
  context_id :: int
  context_name :: QString
  inherited_context_id :: int
  tile_layers :: "TileLayer list"

text \<open>
  The private members of \<open>MapData\<close> (lines 442-510 of the header). A \<open>Tileset*\<close> is kept
  as the tileset's definition filename, a \<open>TileContext*\<close> slot of \<open>_all_tile_contexts\<close>
  as an option (\<open>None\<close> is \<open>nullptr\<close>). The three selection pointers and the derived
  collision grid are read by none of the operations embedded here and are left out.
\<close>

record MapData =
  map_filename :: QString
  map_name :: QString
  map_designers :: QString
  map_description :: QString
  map_length :: uint32
  map_height :: uint32
  map_modified :: bool
  tile_layer_count :: uint32
  tile_context_count :: uint32
  tilesets :: "QString list"
  all_tile_contexts :: "TileContext option list"
  tile_layer_properties :: "TileLayerProperties list"
  empty_tile_layer :: TileLayer
  error_message :: QString

section \<open>Member functions defined in the header\<close>

definition IsInitialized :: "MapData \<Rightarrow> bool" where
  "IsInitialized s = (0 < tile_context_count s)"

text \<open>
  \<open>GetErrorMessage\<close> copies \<open>_error_message\<close>, clears the member and returns the copy.
\<close>

definition GetErrorMessage :: "MapData \<Rightarrow> QString \<times> MapData" where
  "GetErrorMessage s = (error_message s, s\<lparr>error_message := ''''\<rparr>)"

text \<open>
  \<open>std::vector::operator[]\<close> does not check its index: an access at or beyond
  \<open>size()\<close> is undefined behaviour. The model makes that an error value, so that an
  access the guard of a caller lets through is visible in the result.
\<close>

datatype error = VectorIndexOutOfRange

definition vector_at :: "'a list \<Rightarrow> uint32 \<Rightarrow> error + 'a" where
  "vector_at v i = (if unat i < length v then Inr (v ! unat i) else Inl VectorIndexOutOfRange)"

definition vector_modify :: "'a list \<Rightarrow> uint32 \<Rightarrow> ('a \<Rightarrow> 'a) \<Rightarrow> error + 'a list" where
  "vector_modify v i f =
     (case vector_at v i of
        Inl e \<Rightarrow> Inl e
      | Inr x \<Rightarrow> Inr (v[unat i := f x]))"

text \<open>
  \<open>GetTileLayerProperties(layer_index)\<close> returns \<open>nullptr\<close> for
  \<open>layer_index >= _tile_layer_count\<close> and the address of the entry otherwise.
\<close>

definition GetTileLayerProperties :: "uint32 \<Rightarrow> MapData \<Rightarrow> error + TileLayerProperties option" where
  "GetTileLayerProperties layer_index s =
     (if layer_index \<ge> tile_layer_count s then Inr None
      else (case vector_at (tile_layer_properties s) layer_index of
              Inl e \<Rightarrow> Inl e
            | Inr p \<Rightarrow> Inr (Some p)))"

text \<open>
  The four setters of a layer's flags share one shape:
  \<open>if (layer_index <= _tile_layer_count) _tile_layer_properties[layer_index].Set...(v);\<close>
\<close>

definition set_layer_property ::
  "(TileLayerProperties \<Rightarrow> TileLayerProperties) \<Rightarrow> uint32 \<Rightarrow> MapData \<Rightarrow> error + MapData" where
  "set_layer_property f layer_index s =
     (if layer_index \<le> tile_layer_count s
      then (case vector_modify (tile_layer_properties s) layer_index f of
              Inl e \<Rightarrow> Inl e
            | Inr v \<Rightarrow> Inr (s\<lparr>tile_layer_properties := v\<rparr>))
      else Inr s)"

definition ShowTileLayer :: "uint32 \<Rightarrow> MapData \<Rightarrow> error + MapData" where
  "ShowTileLayer layer_index s = set_layer_property (SetVisible True) layer_index s"

definition HideTileLayer :: "uint32 \<Rightarrow> MapData \<Rightarrow> error + MapData" where
  "HideTileLayer layer_index s = set_layer_property (SetVisible False) layer_index s"

definition EnableTileLayerCollision :: "uint32 \<Rightarrow> MapData \<Rightarrow> error + MapData" where
  "EnableTileLayerCollision layer_index s =
     set_layer_property (SetCollisionEnabled True) layer_index s"

definition DisableTileLayerCollision :: "uint32 \<Rightarrow> MapData \<Rightarrow> error + MapData" where
  "DisableTileLayerCollision layer_index s =
     set_layer_property (SetCollisionEnabled False) layer_index s"

text \<open>
  \<open>MoveTileLayerUp\<close> and \<open>MoveTileLayerDown\<close> return what \<open>SwapTileLayers\<close> returns.
  \<open>SwapTileLayers\<close> is declared in the header and defined in \<open>map_data.cpp\<close>; the two
  wrappers take it as their first argument. The subtraction and the addition are those
  of \<open>uint32\<close>.
\<close>

definition MoveTileLayerUp ::
  "(uint32 \<Rightarrow> uint32 \<Rightarrow> MapData \<Rightarrow> bool \<times> MapData) \<Rightarrow> uint32 \<Rightarrow> MapData \<Rightarrow> bool \<times> MapData" where
  "MoveTileLayerUp swap layer_index s = swap layer_index (layer_index - 1) s"

definition MoveTileLayerDown ::
  "(uint32 \<Rightarrow> uint32 \<Rightarrow> MapData \<Rightarrow> bool \<times> MapData) \<Rightarrow> uint32 \<Rightarrow> MapData \<Rightarrow> bool \<times> MapData" where
  "MoveTileLayerDown swap layer_index s = swap layer_index (layer_index + 1) s"

section \<open>Operations defined in \<open>map_data.cpp\<close>\<close>

text \<open>
  The header declares the operations of this section and documents them; their bodies are
  in \<open>map_data.cpp\<close>. Each definition below follows the sentences of the spec quoted
  above it.
\<close>

text \<open>
  Modelled from the spec: the failure path of an operation of \<open>map_data.cpp\<close>. "Any
  failing operation sets a human-readable message" and returns \<open>false\<close>, and "leaves
  state exactly as before the call". The wording of the messages is not given and is
  chosen here.
\<close>

definition fail_with :: "QString \<Rightarrow> MapData \<Rightarrow> bool \<times> MapData" where
  "fail_with msg s = (False, s\<lparr>error_message := msg\<rparr>)"

text \<open>
  Modelled from the spec: \<open>GetTileLayerNames\<close>, "an ordered list of names for all tile
  layers".
\<close>

definition GetTileLayerNames :: "MapData \<Rightarrow> QString list" where
  "GetTileLayerNames s = map layer_name (tile_layer_properties s)"

text \<open>
  Modelled from the spec: layer operations "act on every live context simultaneously".
  The same change of the layer list is made in every slot of \<open>_all_tile_contexts\<close>
  that holds a context. \<open>erase_at\<close> is \<open>std::vector::erase\<close> at a position,
  \<open>swap_at\<close> is \<open>std::swap\<close> of two elements.
\<close>

definition in_every_context ::
  "(TileLayer list \<Rightarrow> TileLayer list) \<Rightarrow> MapData \<Rightarrow> TileContext option list" where
  "in_every_context f s =
     map (map_option (\<lambda>c. c\<lparr>tile_layers := f (tile_layers c)\<rparr>)) (all_tile_contexts s)"

definition erase_at :: "nat \<Rightarrow> 'a list \<Rightarrow> 'a list" where
  "erase_at i xs = take i xs @ drop (Suc i) xs"

definition swap_at :: "nat \<Rightarrow> nat \<Rightarrow> 'a list \<Rightarrow> 'a list" where
  "swap_at i j xs = xs[i := xs ! j, j := xs ! i]"

text \<open>
  Modelled from the spec: \<open>AddTileLayer(name, collision_enabled)\<close> "fails if name collides
  with an existing layer name; otherwise appends a TileLayerProperties entry and, for every
  context, appends a new layer cloned from the template empty layer (current map
  dimensions). Increments layer count." The new layer is visible.
\<close>

definition AddTileLayer :: "QString \<Rightarrow> bool \<Rightarrow> MapData \<Rightarrow> bool \<times> MapData" where
  "AddTileLayer name collision s =
     (if name \<in> set (GetTileLayerNames s)
      then fail_with ''a tile layer with this name already exists'' s
      else (True,
            s\<lparr>tile_layer_properties :=
                 tile_layer_properties s
                 @ [\<lparr>layer_name = name, visible = True, collision_enabled = collision\<rparr>],
               all_tile_contexts := in_every_context (\<lambda>ls. ls @ [empty_tile_layer s]) s,
               tile_layer_count := tile_layer_count s + 1\<rparr>))"

text \<open>
  Modelled from the spec: \<open>DeleteTileLayer(index)\<close> is "bounds-checked; removes the
  properties entry and the layer at that index from every context; decrements count".
\<close>

definition DeleteTileLayer :: "uint32 \<Rightarrow> MapData \<Rightarrow> bool \<times> MapData" where
  "DeleteTileLayer layer_index s =
     (if layer_index \<ge> tile_layer_count s
      then fail_with ''no tile layer exists at this index'' s
      else (True,
            s\<lparr>tile_layer_properties := erase_at (unat layer_index) (tile_layer_properties s),
               all_tile_contexts := in_every_context (erase_at (unat layer_index)) s,
               tile_layer_count := tile_layer_count s - 1\<rparr>))"

text \<open>
  Modelled from the spec: \<open>CloneTileLayer(index)\<close> "duplicates properties (with a generated
  unique name) and duplicates the tile grid of that layer in every context; appended at the
  end". The clone is one more layer, so the count goes up by one as in \<open>AddTileLayer\<close>, and
  an index that names no layer is refused as in \<open>DeleteTileLayer\<close>. The name comes from
  \<open>_CreateCloneName\<close>, which is the first argument here.
\<close>

definition CloneTileLayer ::
  "(QString \<Rightarrow> QString list \<Rightarrow> QString) \<Rightarrow> uint32 \<Rightarrow> MapData \<Rightarrow> bool \<times> MapData" where
  "CloneTileLayer create_clone_name layer_index s =
     (if layer_index \<ge> tile_layer_count s
      then fail_with ''no tile layer exists at this index'' s
      else (let p = tile_layer_properties s ! unat layer_index;
                clone = p\<lparr>layer_name := create_clone_name (layer_name p) (GetTileLayerNames s)\<rparr>
            in (True,
                s\<lparr>tile_layer_properties := tile_layer_properties s @ [clone],
                   all_tile_contexts := in_every_context (\<lambda>ls. ls @ [ls ! unat layer_index]) s,
                   tile_layer_count := tile_layer_count s + 1\<rparr>)))"

text \<open>
  Modelled from the spec: \<open>SwapTileLayers(i, j)\<close> is "bounds-checked (i, j < layer_count);
  swaps the properties entries and swaps the corresponding layer within every context".
\<close>

definition SwapTileLayers :: "uint32 \<Rightarrow> uint32 \<Rightarrow> MapData \<Rightarrow> bool \<times> MapData" where
  "SwapTileLayers index_one index_two s =
     (if index_one < tile_layer_count s \<and> index_two < tile_layer_count s
      then (True,
            s\<lparr>tile_layer_properties :=
                 swap_at (unat index_one) (unat index_two) (tile_layer_properties s),
               all_tile_contexts :=
                 in_every_context (swap_at (unat index_one) (unat index_two)) s\<rparr>)
      else fail_with ''a tile layer index is out of range'' s)"

text \<open>
  The public layer operations as data, and a run of them: the result of every call, in
  order, each call starting from the state the one before it left.
\<close>

datatype layer_op =
    Add QString bool
  | Delete uint32
  | Clone uint32
  | Swap uint32 uint32

fun apply_layer_op ::
  "(QString \<Rightarrow> QString list \<Rightarrow> QString) \<Rightarrow> layer_op \<Rightarrow> MapData \<Rightarrow> bool \<times> MapData" where
  "apply_layer_op g (Add name collision) s = AddTileLayer name collision s"
| "apply_layer_op g (Delete i) s = DeleteTileLayer i s"
| "apply_layer_op g (Clone i) s = CloneTileLayer g i s"
| "apply_layer_op g (Swap i j) s = SwapTileLayers i j s"

fun run_layer_ops ::
  "(QString \<Rightarrow> QString list \<Rightarrow> QString) \<Rightarrow> layer_op list \<Rightarrow> MapData \<Rightarrow> (bool \<times> MapData) list" where
  "run_layer_ops g [] s = []"
| "run_layer_ops g (op # ops) s =
     (let r = apply_layer_op g op s in r # run_layer_ops g ops (snd r))"

text \<open>
  Invariant 1 of the spec: the properties list, the stored count and the layer list of
  every live context have the same length.
\<close>

definition context_layers_have :: "nat \<Rightarrow> TileContext option list \<Rightarrow> bool" where
  "context_layers_have n slots =
     (\<forall>slot \<in> set slots.
        case slot of None \<Rightarrow> True | Some c \<Rightarrow> length (tile_layers c) = n)"

definition layer_lists_agree :: "MapData \<Rightarrow> bool" where
  "layer_lists_agree s =
     (length (tile_layer_properties s) = unat (tile_layer_count s)
      \<and> context_layers_have (unat (tile_layer_count s)) (all_tile_contexts s))"

text \<open>
  Modelled from the spec: \<open>ResizeMap(length, height)\<close> "grows or shrinks every layer in
  every context by appending/removing rows at the bottom and columns at the right only".
  The header's comment says the same. A new cell holds the empty tile. The template empty
  layer "is maintained to the current height and length of the open map" (header, lines
  501-507) and is resized with the rest.
\<close>

definition NO_TILE :: int where
  "NO_TILE = - 1"

definition resize_row :: "nat \<Rightarrow> int list \<Rightarrow> int list" where
  "resize_row len row = take len row @ replicate (len - length row) NO_TILE"

definition resize_layer :: "nat \<Rightarrow> nat \<Rightarrow> TileLayer \<Rightarrow> TileLayer" where
  "resize_layer len height layer =
     map (resize_row len) (take height layer @ replicate (height - length layer) [])"

definition ResizeMap :: "uint32 \<Rightarrow> uint32 \<Rightarrow> MapData \<Rightarrow> MapData" where
  "ResizeMap new_length new_height s =
     s\<lparr>map_length := new_length,
       map_height := new_height,
       all_tile_contexts :=
         in_every_context (map (resize_layer (unat new_length) (unat new_height))) s,
       empty_tile_layer :=
         resize_layer (unat new_length) (unat new_height) (empty_tile_layer s)\<rparr>"

text \<open>
  Invariant 7 of the spec: every layer of every live context has \<open>_map_height\<close> rows of
  \<open>_map_length\<close> tiles.
\<close>

definition layer_has_dimensions :: "nat \<Rightarrow> nat \<Rightarrow> TileLayer \<Rightarrow> bool" where
  "layer_has_dimensions len height layer =
     (length layer = height \<and> (\<forall>row \<in> set layer. length row = len))"

definition layers_match_map :: "MapData \<Rightarrow> bool" where
  "layers_match_map s =
     (\<forall>slot \<in> set (all_tile_contexts s).
        case slot of
          None \<Rightarrow> True
        | Some c \<Rightarrow>
            (\<forall>layer \<in> set (tile_layers c).
               layer_has_dimensions (unat (map_length s)) (unat (map_height s)) layer))"

text \<open>
  The part of a layer within the first \<open>height\<close> rows and the first \<open>len\<close>
  columns.
\<close>

definition crop_layer :: "nat \<Rightarrow> nat \<Rightarrow> TileLayer \<Rightarrow> TileLayer" where
  "crop_layer len height layer = map (take len) (take height layer)"

text \<open>
  The bound check of \<open>SwapTileLayers\<close> that \<open>MoveTileLayerUp\<close> and
  \<open>MoveTileLayerDown\<close> rely on at the two ends of the layer list: unless both indices
  are below the layer count, the call returns \<open>false\<close> and changes nothing but the
  error message.
\<close>

definition requires_indices_below_count ::
  "(uint32 \<Rightarrow> uint32 \<Rightarrow> MapData \<Rightarrow> bool \<times> MapData) \<Rightarrow> bool" where
  "requires_indices_below_count swap =
     (\<forall>i j s. \<not> (i < tile_layer_count s \<and> j < tile_layer_count s)
        \<longrightarrow> (\<exists>msg. swap i j s = (False, s\<lparr>error_message := msg\<rparr>)))"

section \<open>A small map\<close>

text \<open>
  A map of two by two tiles with one base context and one layer, as \<open>CreateData(2, 2)\<close>
  followed by some tile painting leaves it. \<open>- 1\<close> is the tile of the empty layer.
\<close>

definition example_map :: MapData where
  "example_map =
     \<lparr>map_filename = '''', map_name = ''Example'', map_designers = '''',
      map_description = '''', map_length = 2, map_height = 2, map_modified = True,
      tile_layer_count = 1, tile_context_count = 1, tilesets = [],
      all_tile_contexts =
        Some \<lparr>context_id = 1, context_name = ''Base'',
              inherited_context_id = INVALID_CONTEXT,
              tile_layers = [[[0, 1], [2, 3]]]\<rparr> # replicate 31 None,
      tile_layer_properties =
        [\<lparr>layer_name = ''Ground'', visible = False, collision_enabled = True\<rparr>],
      empty_tile_layer = [[- 1, - 1], [- 1, - 1]],
      error_message = ''''\<rparr>"

text \<open>
  A run of layer operations on that map: add a layer, clone the first, swap the first and
  the third, delete the second, and delete at an index that names no layer. The name of a
  clone is made here by appending \<open>(Clone)\<close>.
\<close>

definition example_clone_name :: "QString \<Rightarrow> QString list \<Rightarrow> QString" where
  "example_clone_name name taken = name @ '' (Clone)''"

definition example_layer_ops :: "layer_op list" where
  "example_layer_ops = [Add ''Sky'' False, Clone 0, Swap 0 2, Delete 1, Delete 7]"

section \<open>The error slot\<close>

text \<open>
  A failing layer operation stores its message whatever message was in the slot, and
  leaves everything else as it was. The check that makes it fail does not read the slot.
\<close>

lemma fail_with_overwrites:
  "fail_with msg (s\<lparr>error_message := unread\<rparr>) = (False, s\<lparr>error_message := msg\<rparr>)"
  by (simp add: fail_with_def)

lemma failing_layer_op_overwrites:
  assumes "\<not> fst (apply_layer_op g op s)"
  shows "\<exists>msg. msg \<noteq> '''' \<and>
           (\<forall>unread. apply_layer_op g op (s\<lparr>error_message := unread\<rparr>)
                        = (False, s\<lparr>error_message := msg\<rparr>))"
proof (cases op)
  case (Add name collision)
  with assms have "name \<in> set (GetTileLayerNames s)"
    by (simp add: AddTileLayer_def split: if_splits)
  then have "\<forall>unread. apply_layer_op g op (s\<lparr>error_message := unread\<rparr>)
               = (False, s\<lparr>error_message := ''a tile layer with this name already exists''\<rparr>)"
    using Add by (simp add: AddTileLayer_def GetTileLayerNames_def fail_with_overwrites)
  then show ?thesis by (intro exI [of _ "''a tile layer with this name already exists''"]) simp
next
  case (Delete i)
  with assms have "tile_layer_count s \<le> i"
    by (simp add: DeleteTileLayer_def split: if_splits)
  then have "\<forall>unread. apply_layer_op g op (s\<lparr>error_message := unread\<rparr>)
               = (False, s\<lparr>error_message := ''no tile layer exists at this index''\<rparr>)"
    using Delete by (simp add: DeleteTileLayer_def fail_with_overwrites)
  then show ?thesis by (intro exI [of _ "''no tile layer exists at this index''"]) simp
next
  case (Clone i)
  with assms have "tile_layer_count s \<le> i"
    by (simp add: CloneTileLayer_def Let_def split: if_splits)
  then have "\<forall>unread. apply_layer_op g op (s\<lparr>error_message := unread\<rparr>)
               = (False, s\<lparr>error_message := ''no tile layer exists at this index''\<rparr>)"
    using Clone by (simp add: CloneTileLayer_def fail_with_overwrites)
  then show ?thesis by (intro exI [of _ "''no tile layer exists at this index''"]) simp
next
  case (Swap i j)
  with assms have "\<not> (i < tile_layer_count s \<and> j < tile_layer_count s)"
    by (auto simp: SwapTileLayers_def split: if_splits)
  then have "SwapTileLayers i j (s\<lparr>error_message := unread\<rparr>)
               = fail_with ''a tile layer index is out of range'' (s\<lparr>error_message := unread\<rparr>)"
    for unread
    unfolding SwapTileLayers_def by (intro if_not_P) simp
  then have "\<forall>unread. apply_layer_op g op (s\<lparr>error_message := unread\<rparr>)
               = (False, s\<lparr>error_message := ''a tile layer index is out of range''\<rparr>)"
    using Swap by (simp add: fail_with_overwrites)
  then show ?thesis by (intro exI [of _ "''a tile layer index is out of range''"]) simp
qed

lemma failing_layer_op_twice:
  assumes "\<not> fst (apply_layer_op g op1 s)" and "\<not> fst (apply_layer_op g op2 s)"
  shows "apply_layer_op g op2 (snd (apply_layer_op g op1 s)) = apply_layer_op g op2 s"
proof -
  obtain msg1 where
    first: "\<forall>unread. apply_layer_op g op1 (s\<lparr>error_message := unread\<rparr>)
                       = (False, s\<lparr>error_message := msg1\<rparr>)"
    using failing_layer_op_overwrites [OF assms(1)] by blast
  obtain msg2 where
    second: "\<forall>unread. apply_layer_op g op2 (s\<lparr>error_message := unread\<rparr>)
                       = (False, s\<lparr>error_message := msg2\<rparr>)"
    using failing_layer_op_overwrites [OF assms(2)] by blast
  have "apply_layer_op g op1 s = (False, s\<lparr>error_message := msg1\<rparr>)"
    using first [rule_format, of "error_message s"] by simp
  moreover have "apply_layer_op g op2 s = (False, s\<lparr>error_message := msg2\<rparr>)"
    using second [rule_format, of "error_message s"] by simp
  ultimately show ?thesis
    using second [rule_format, of msg1] by simp
qed

text \<open>
  C8. \<open>GetErrorMessage\<close> returns the stored message and leaves the empty string in the
  slot, changing nothing else; a second call right after it returns the empty string.
  A failing operation overwrites an unread message: after the failure path has stored
  \<open>m1\<close> and then \<open>m2\<close>, the state is the one in which only \<open>m2\<close> was stored and
  \<open>GetErrorMessage\<close> returns \<open>m2\<close>. A layer operation that fails stores the same
  non-empty message whatever unread message the slot held, and when two layer operations
  fail one after the other, \<open>GetErrorMessage\<close> returns the message of the second.
\<close>

theorem GetErrorMessage_returns_and_clears:
  "fst (GetErrorMessage s) = error_message s
   \<and> snd (GetErrorMessage s) = s\<lparr>error_message := ''''\<rparr>
   \<and> error_message (snd (GetErrorMessage s)) = ''''
   \<and> fst (GetErrorMessage (snd (GetErrorMessage s))) = ''''
   \<and> fst (GetErrorMessage (snd (fail_with m2 (snd (fail_with m1 s))))) = m2
   \<and> snd (fail_with m2 (snd (fail_with m1 s))) = snd (fail_with m2 s)
   \<and> (\<not> fst (apply_layer_op g op s) \<longrightarrow>
        (\<exists>msg. msg \<noteq> '''' \<and>
           (\<forall>unread. apply_layer_op g op (s\<lparr>error_message := unread\<rparr>)
                        = (False, s\<lparr>error_message := msg\<rparr>))))
   \<and> (\<not> fst (apply_layer_op g op s) \<and> \<not> fst (apply_layer_op g op2 s) \<longrightarrow>
        fst (GetErrorMessage (snd (apply_layer_op g op2 (snd (apply_layer_op g op s)))))
          = error_message (snd (apply_layer_op g op2 s)))"
proof -
  have getter: "fst (GetErrorMessage s) = error_message s"
    "snd (GetErrorMessage s) = s\<lparr>error_message := ''''\<rparr>"
    "error_message (snd (GetErrorMessage s)) = ''''"
    "fst (GetErrorMessage (snd (GetErrorMessage s))) = ''''"
    by (simp_all add: GetErrorMessage_def)
  have slot: "fst (GetErrorMessage (snd (fail_with m2 (snd (fail_with m1 s))))) = m2"
    "snd (fail_with m2 (snd (fail_with m1 s))) = snd (fail_with m2 s)"
    by (simp_all add: GetErrorMessage_def fail_with_def)
  have twice: "fst (GetErrorMessage (snd (apply_layer_op g op2 (snd (apply_layer_op g op s)))))
                 = error_message (snd (apply_layer_op g op2 s))"
    if "\<not> fst (apply_layer_op g op s)" and "\<not> fst (apply_layer_op g op2 s)"
    using failing_layer_op_twice [OF that] by (simp add: GetErrorMessage_def)
  show ?thesis
    using getter slot failing_layer_op_overwrites [of g op s] twice
    by (intro conjI impI) simp_all
qed

theorem GetErrorMessage_returns_and_clears_witness:
  "fst (apply_layer_op example_clone_name (Delete 7) example_map) = False
   \<and> fst (apply_layer_op example_clone_name (Swap 0 5) example_map) = False
   \<and> fst (GetErrorMessage (snd (DeleteTileLayer 7 (example_map\<lparr>error_message := ''unread''\<rparr>))))
       = ''no tile layer exists at this index''
   \<and> fst (GetErrorMessage
            (snd (SwapTileLayers 0 5 (snd (DeleteTileLayer 7 example_map)))))
       = ''a tile layer index is out of range''"
proof -
  have first: "\<not> fst (apply_layer_op example_clone_name (Delete 7) example_map)"
    by code_simp
  have second: "\<not> fst (apply_layer_op example_clone_name (Swap 0 5) example_map)"
    by code_simp
  note fails = first second
  note inst = GetErrorMessage_returns_and_clears
               [of example_map _ _ example_clone_name "Delete 7" "Swap 0 5"]
  have "fst (GetErrorMessage (snd (apply_layer_op example_clone_name (Swap 0 5)
               (snd (apply_layer_op example_clone_name (Delete 7) example_map)))))
          = error_message (snd (apply_layer_op example_clone_name (Swap 0 5) example_map))"
    using inst fails by blast
  moreover have "error_message (snd (apply_layer_op example_clone_name (Swap 0 5) example_map))
                   = ''a tile layer index is out of range''"
    by code_simp
  moreover have "fst (GetErrorMessage (snd (DeleteTileLayer 7
                        (example_map\<lparr>error_message := ''unread''\<rparr>))))
                   = ''no tile layer exists at this index''"
    by code_simp
  ultimately show ?thesis
    using fails by simp
qed

section \<open>The index guard of the layer flag setters\<close>

lemma vector_modify_in_range:
  "unat i < length v \<Longrightarrow> vector_modify v i f = Inr (v[unat i := f (v ! unat i)])"
  by (simp add: vector_modify_def vector_at_def)

lemma vector_modify_out_of_range:
  "length v \<le> unat i \<Longrightarrow> vector_modify v i f = Inl VectorIndexOutOfRange"
  by (simp add: vector_modify_def vector_at_def)

text \<open>
  With \<open>layer_index\<close> equal to the layer count the guard \<open>layer_index <= _tile_layer_count\<close>
  holds, and the entry one past the end of \<open>_tile_layer_properties\<close> is written.
\<close>

lemma set_layer_property_at_count:
  assumes "length (tile_layer_properties s) = unat (tile_layer_count s)"
  shows "set_layer_property f (tile_layer_count s) s = Inl VectorIndexOutOfRange"
  using assms by (simp add: set_layer_property_def vector_modify_out_of_range)

lemma set_layer_property_below_count:
  assumes "length (tile_layer_properties s) = unat (tile_layer_count s)"
    and "layer_index < tile_layer_count s"
  shows "set_layer_property f layer_index s =
           Inr (s\<lparr>tile_layer_properties :=
                    (tile_layer_properties s)[unat layer_index :=
                       f (tile_layer_properties s ! unat layer_index)]\<rparr>)"
proof -
  have "layer_index \<le> tile_layer_count s"
    using assms(2) by simp
  moreover have "unat layer_index < length (tile_layer_properties s)"
    using assms by (simp add: word_less_nat_alt)
  ultimately show ?thesis
    by (simp add: set_layer_property_def vector_modify_in_range)
qed

lemma set_layer_property_above_count:
  assumes "tile_layer_count s < layer_index"
  shows "set_layer_property f layer_index s = Inr s"
proof -
  have "\<not> layer_index \<le> tile_layer_count s"
    using assms by (simp add: not_le)
  then show ?thesis
    by (simp add: set_layer_property_def)
qed

text \<open>
  C10. On the map with one layer, index 1 is not below the length of the properties
  list, and each of the four setters passes its guard and reaches the access out of range,
  where \<open>GetTileLayerProperties\<close> returns \<open>nullptr\<close>.
\<close>

theorem layer_flag_setters_admit_index_equal_to_count:
  "tile_layer_count example_map = 1
   \<and> length (tile_layer_properties example_map) = 1
   \<and> ShowTileLayer 1 example_map = Inl VectorIndexOutOfRange
   \<and> HideTileLayer 1 example_map = Inl VectorIndexOutOfRange
   \<and> EnableTileLayerCollision 1 example_map = Inl VectorIndexOutOfRange
   \<and> DisableTileLayerCollision 1 example_map = Inl VectorIndexOutOfRange
   \<and> GetTileLayerProperties 1 example_map = Inr None"
  by (simp add: ShowTileLayer_def HideTileLayer_def EnableTileLayerCollision_def
      DisableTileLayerCollision_def GetTileLayerProperties_def set_layer_property_def
      vector_modify_def vector_at_def example_map_def)

section \<open>Moving a layer up and down\<close>

lemma no_index_above_max: "\<not> ((0::uint32) - 1 < c)"
  by (simp add: word_order.extremum_strict)

lemma SwapTileLayers_requires_indices_below_count:
  "requires_indices_below_count SwapTileLayers"
  unfolding requires_indices_below_count_def
proof (intro allI impI)
  fix i j :: uint32 and s :: MapData
  assume "\<not> (i < tile_layer_count s \<and> j < tile_layer_count s)"
  then have "SwapTileLayers i j s
               = (False, s\<lparr>error_message := ''a tile layer index is out of range''\<rparr>)"
    unfolding SwapTileLayers_def fail_with_def by (rule if_not_P)
  then show "\<exists>msg. SwapTileLayers i j s = (False, s\<lparr>error_message := msg\<rparr>)"
    by (rule exI)
qed

text \<open>
  C7. \<open>MoveTileLayerUp(layer_index)\<close> is \<open>SwapTileLayers(layer_index, layer_index - 1)\<close>
  and \<open>MoveTileLayerDown(layer_index)\<close> is \<open>SwapTileLayers(layer_index, layer_index + 1)\<close>,
  for every index. For index 0 the second argument of the swap is 4294967295, which is
  below no layer count. So with any \<open>SwapTileLayers\<close> that refuses an index not below the
  layer count, moving layer 0 up fails, and so does moving down the layer whose index plus
  one is the layer count; the state after the call differs from the state before it in
  the error message at most.
\<close>

theorem MoveTileLayer_wrappers_fail_at_the_ends:
  assumes "requires_indices_below_count swap"
  shows "MoveTileLayerUp swap layer_index s = swap layer_index (layer_index - 1) s
     \<and> MoveTileLayerDown swap layer_index s = swap layer_index (layer_index + 1) s
     \<and> unat ((0::uint32) - 1) = 4294967295
     \<and> (\<exists>msg. MoveTileLayerUp swap 0 s = (False, s\<lparr>error_message := msg\<rparr>))
     \<and> (layer_index + 1 = tile_layer_count s \<longrightarrow>
          (\<exists>msg. MoveTileLayerDown swap layer_index s = (False, s\<lparr>error_message := msg\<rparr>)))"
proof -
  note refuses = assms [unfolded requires_indices_below_count_def, rule_format]
  have "\<not> (0 < tile_layer_count s \<and> 0 - 1 < tile_layer_count s)"
    using no_index_above_max [of "tile_layer_count s"] by simp
  then have up: "\<exists>msg. swap 0 (0 - 1) s = (False, s\<lparr>error_message := msg\<rparr>)"
    by (rule refuses)
  have down: "\<exists>msg. swap layer_index (layer_index + 1) s = (False, s\<lparr>error_message := msg\<rparr>)"
    if "layer_index + 1 = tile_layer_count s"
  proof (rule refuses)
    show "\<not> (layer_index < tile_layer_count s \<and> layer_index + 1 < tile_layer_count s)"
      using that by simp
  qed
  have "unat (- 1 :: uint32) = mask LENGTH(32)"
    by (rule unsigned_minus_1_eq_mask)
  also have "\<dots> = 2 ^ 32 - 1"
    by (simp add: mask_eq_exp_minus_1)
  finally have wrap: "unat ((0::uint32) - 1) = 4294967295"
    by simp
  show ?thesis
    using up down wrap by (simp add: MoveTileLayerUp_def MoveTileLayerDown_def)
qed

theorem MoveTileLayer_wrappers_fail_at_the_ends_witness:
  "requires_indices_below_count SwapTileLayers
   \<and> MoveTileLayerUp SwapTileLayers 0 example_map
     = (False, example_map\<lparr>error_message := ''a tile layer index is out of range''\<rparr>)
   \<and> MoveTileLayerDown SwapTileLayers 0 example_map
     = (False, example_map\<lparr>error_message := ''a tile layer index is out of range''\<rparr>)
   \<and> (0::uint32) + 1 = tile_layer_count example_map"
  using MoveTileLayer_wrappers_fail_at_the_ends
          [OF SwapTileLayers_requires_indices_below_count, of 0 example_map]
        SwapTileLayers_requires_indices_below_count
  by (simp add: MoveTileLayerUp_def MoveTileLayerDown_def SwapTileLayers_def fail_with_def
        example_map_def)

section \<open>The layer lists stay in step\<close>

lemma unat_plus_one:
  fixes c :: uint32
  assumes "unat c + 1 < 2 ^ 32"
  shows "unat (c + 1) = unat c + 1"
proof -
  have "unat c + unat (1::uint32) < 2 ^ LENGTH(32)"
    using assms by simp
  then have "unat (c + 1) = unat c + unat (1::uint32)"
    by (simp only: unat_add_lem [THEN iffD1])
  then show ?thesis by simp
qed

lemma unat_minus_one_below:
  fixes c i :: uint32
  assumes "i < c"
  shows "unat (c - 1) = unat c - 1" and "unat i < unat c"
proof -
  have "c \<noteq> 0" using assms by auto
  then show "unat (c - 1) = unat c - 1" by (rule unat_minus_one)
  show "unat i < unat c" using assms by (simp add: word_less_nat_alt)
qed

lemma in_every_context_lengths:
  assumes "context_layers_have n (all_tile_contexts s)"
    and "\<And>ls. length ls = n \<Longrightarrow> length (f ls) = m"
  shows "context_layers_have m (in_every_context f s)"
  using assms
  by (auto simp: context_layers_have_def in_every_context_def split: option.splits)

lemma length_erase_at: "i < length xs \<Longrightarrow> length (erase_at i xs) = length xs - 1"
  by (simp add: erase_at_def)

lemma length_swap_at: "length (swap_at i j xs) = length xs"
  by (simp add: swap_at_def)

lemma fail_with_keeps:
  "layer_lists_agree s \<Longrightarrow> layer_lists_agree (snd (fail_with msg s))"
  "tile_layer_properties (snd (fail_with msg s)) = tile_layer_properties s"
  by (simp_all add: fail_with_def layer_lists_agree_def)

lemma AddTileLayer_keeps:
  assumes "layer_lists_agree s" and "length (tile_layer_properties s) + 1 < 2 ^ 32"
  shows "layer_lists_agree (snd (AddTileLayer name collision s))"
proof (cases "name \<in> set (GetTileLayerNames s)")
  case True
  then show ?thesis
    using assms(1) by (simp add: AddTileLayer_def fail_with_keeps)
next
  case False
  have len: "length (tile_layer_properties s) = unat (tile_layer_count s)"
    and ctx: "context_layers_have (unat (tile_layer_count s)) (all_tile_contexts s)"
    using assms(1) by (simp_all add: layer_lists_agree_def)
  have count: "unat (tile_layer_count s + 1) = unat (tile_layer_count s) + 1"
    using assms(2) len by (simp add: unat_plus_one)
  have "context_layers_have (unat (tile_layer_count s) + 1)
          (in_every_context (\<lambda>ls. ls @ [empty_tile_layer s]) s)"
    using ctx by (rule in_every_context_lengths) simp
  then show ?thesis
    using False len count by (simp add: AddTileLayer_def layer_lists_agree_def)
qed

lemma CloneTileLayer_keeps:
  assumes "layer_lists_agree s" and "length (tile_layer_properties s) + 1 < 2 ^ 32"
  shows "layer_lists_agree (snd (CloneTileLayer g i s))"
proof (cases "tile_layer_count s \<le> i")
  case True
  then show ?thesis
    using assms(1) by (simp add: CloneTileLayer_def fail_with_keeps)
next
  case False
  have len: "length (tile_layer_properties s) = unat (tile_layer_count s)"
    and ctx: "context_layers_have (unat (tile_layer_count s)) (all_tile_contexts s)"
    using assms(1) by (simp_all add: layer_lists_agree_def)
  have count: "unat (tile_layer_count s + 1) = unat (tile_layer_count s) + 1"
    using assms(2) len by (simp add: unat_plus_one)
  have "context_layers_have (unat (tile_layer_count s) + 1)
          (in_every_context (\<lambda>ls. ls @ [ls ! unat i]) s)"
    using ctx by (rule in_every_context_lengths) simp
  then show ?thesis
    using False len count by (simp add: CloneTileLayer_def layer_lists_agree_def Let_def)
qed

lemma DeleteTileLayer_keeps:
  assumes "layer_lists_agree s"
  shows "layer_lists_agree (snd (DeleteTileLayer i s))"
proof (cases "tile_layer_count s \<le> i")
  case True
  then show ?thesis
    using assms by (simp add: DeleteTileLayer_def fail_with_keeps)
next
  case False
  then have below: "i < tile_layer_count s" by simp
  have len: "length (tile_layer_properties s) = unat (tile_layer_count s)"
    and ctx: "context_layers_have (unat (tile_layer_count s)) (all_tile_contexts s)"
    using assms by (simp_all add: layer_lists_agree_def)
  note count = unat_minus_one_below [OF below]
  have "context_layers_have (unat (tile_layer_count s) - 1)
          (in_every_context (erase_at (unat i)) s)"
    using ctx by (rule in_every_context_lengths) (simp add: length_erase_at count)
  then show ?thesis
    using False len count
    by (simp add: DeleteTileLayer_def layer_lists_agree_def length_erase_at)
qed

lemma SwapTileLayers_keeps:
  assumes "layer_lists_agree s"
  shows "layer_lists_agree (snd (SwapTileLayers i j s))"
proof (cases "i < tile_layer_count s \<and> j < tile_layer_count s")
  case False
  then have "SwapTileLayers i j s = fail_with ''a tile layer index is out of range'' s"
    unfolding SwapTileLayers_def by (rule if_not_P)
  then show ?thesis
    using assms by (simp add: fail_with_keeps)
next
  case True
  have len: "length (tile_layer_properties s) = unat (tile_layer_count s)"
    and ctx: "context_layers_have (unat (tile_layer_count s)) (all_tile_contexts s)"
    using assms by (simp_all add: layer_lists_agree_def)
  have "context_layers_have (unat (tile_layer_count s))
          (in_every_context (swap_at (unat i) (unat j)) s)"
    using ctx by (rule in_every_context_lengths) (simp add: length_swap_at)
  then show ?thesis
    using True len by (simp add: SwapTileLayers_def layer_lists_agree_def length_swap_at)
qed

lemma apply_layer_op_keeps:
  assumes "layer_lists_agree s" and "length (tile_layer_properties s) + 1 < 2 ^ 32"
  shows "layer_lists_agree (snd (apply_layer_op g op s))"
  using assms
  by (cases op)
     (simp_all add: AddTileLayer_keeps CloneTileLayer_keeps DeleteTileLayer_keeps
        SwapTileLayers_keeps)

lemma length_erase_at_le: "length (erase_at i xs) \<le> length xs"
  unfolding erase_at_def by (cases "i < length xs") simp_all

lemma apply_layer_op_grows_by_one:
  "length (tile_layer_properties (snd (apply_layer_op g op s)))
     \<le> length (tile_layer_properties s) + 1"
proof (cases op)
  case (Add name collision)
  then show ?thesis by (simp add: AddTileLayer_def fail_with_def)
next
  case (Delete i)
  then show ?thesis
    using length_erase_at_le [of "unat i" "tile_layer_properties s"]
    by (simp add: DeleteTileLayer_def fail_with_def)
next
  case (Clone i)
  then show ?thesis by (simp add: CloneTileLayer_def fail_with_def Let_def)
next
  case (Swap i j)
  then show ?thesis by (simp add: SwapTileLayers_def fail_with_def length_swap_at)
qed

text \<open>
  C1. Start from a map whose properties list, layer count and per-context layer lists
  have the same length, and make any sequence of calls of \<open>AddTileLayer\<close>,
  \<open>DeleteTileLayer\<close>, \<open>CloneTileLayer\<close> and \<open>SwapTileLayers\<close>. After every call,
  successful or not, the three lengths are equal again. The layer count is a \<open>uint32\<close>:
  the sequence must be short enough for the count not to wrap around.
\<close>

theorem layer_operations_keep_lists_in_step:
  assumes "layer_lists_agree s"
    and "length (tile_layer_properties s) + length ops < 2 ^ 32"
  shows "\<forall>r \<in> set (run_layer_ops g ops s). layer_lists_agree (snd r)"
  using assms
proof (induction ops arbitrary: s)
  case Nil
  show ?case by simp
next
  case (Cons op ops)
  let ?s' = "snd (apply_layer_op g op s)"
  have here: "layer_lists_agree ?s'"
    using Cons.prems by (intro apply_layer_op_keeps) simp_all
  have "length (tile_layer_properties ?s') + length ops < 2 ^ 32"
    using apply_layer_op_grows_by_one [of g op s] Cons.prems(2) by simp
  with here have "\<forall>r \<in> set (run_layer_ops g ops ?s'). layer_lists_agree (snd r)"
    by (rule Cons.IH)
  with here show ?case
    by (simp add: Let_def)
qed

lemma example_map_layer_lists_agree: "layer_lists_agree example_map"
  by (simp add: layer_lists_agree_def context_layers_have_def example_map_def)

lemma example_layer_ops_results:
  "map fst (run_layer_ops example_clone_name example_layer_ops example_map)
     = [True, True, True, True, False]"
  by code_simp

theorem layer_operations_keep_lists_in_step_witness:
  "layer_lists_agree example_map
   \<and> length (tile_layer_properties example_map) + length example_layer_ops < 2 ^ 32
   \<and> list_all (\<lambda>r. layer_lists_agree (snd r))
        (run_layer_ops example_clone_name example_layer_ops example_map)
   \<and> map fst (run_layer_ops example_clone_name example_layer_ops example_map)
        = [True, True, True, True, False]"
proof -
  have small: "length (tile_layer_properties example_map) + length example_layer_ops < 2 ^ 32"
    by (simp add: example_map_def example_layer_ops_def)
  have "\<forall>r \<in> set (run_layer_ops example_clone_name example_layer_ops example_map).
          layer_lists_agree (snd r)"
    using example_map_layer_lists_agree small by (rule layer_operations_keep_lists_in_step)
  then show ?thesis
    using example_map_layer_lists_agree small example_layer_ops_results
    by (simp add: list_all_iff)
qed

section \<open>Growing a map and shrinking it back\<close>

lemma resize_row_restore:
  assumes "length row \<le> len"
  shows "resize_row (length row) (resize_row len row) = row"
  using assms by (simp add: resize_row_def)

lemma length_resize_row: "length (resize_row len row) = len"
  by (simp add: resize_row_def)

lemma length_resize_layer: "length (resize_layer len height layer) = height"
  by (simp add: resize_layer_def)

lemma resize_layer_has_dimensions:
  "layer_has_dimensions len height (resize_layer len height layer)"
  by (auto simp: layer_has_dimensions_def resize_layer_def length_resize_row)

lemma resize_layer_restore:
  assumes dims: "layer_has_dimensions len0 height0 layer"
    and "len0 \<le> len" and "height0 \<le> height"
  shows "resize_layer len0 height0 (resize_layer len height layer) = layer"
proof -
  have rows: "length layer = height0" and cols: "\<And>row. row \<in> set layer \<Longrightarrow> length row = len0"
    using dims by (simp_all add: layer_has_dimensions_def)
  have grown: "resize_layer len height layer
                 = map (resize_row len) layer @ map (resize_row len) (replicate (height - height0) [])"
    using rows assms(3) by (simp add: resize_layer_def)
  have "take height0 (resize_layer len height layer) = map (resize_row len) layer"
    unfolding grown using rows by simp
  moreover have "height0 - length (resize_layer len height layer) = 0"
    using assms(3) by (simp add: length_resize_layer)
  ultimately have "resize_layer len0 height0 (resize_layer len height layer)
                     = map (resize_row len0) (map (resize_row len) layer)"
    by (simp add: resize_layer_def [of len0 height0])
  also have "\<dots> = map (\<lambda>row. row) layer"
    unfolding map_map
  proof (rule map_cong [OF refl])
    fix row assume "row \<in> set layer"
    then have "length row = len0" by (rule cols)
    then show "(resize_row len0 \<circ> resize_row len) row = row"
      using assms(2) resize_row_restore [of row len] by simp
  qed
  finally show ?thesis by simp
qed

lemma resize_layer_keeps_original:
  assumes dims: "layer_has_dimensions len0 height0 layer"
    and "len0 \<le> len" and "height0 \<le> height"
  shows "map (take len0) (take height0 (resize_layer len height layer)) = layer"
proof -
  have rows: "length layer = height0" and cols: "\<And>row. row \<in> set layer \<Longrightarrow> length row = len0"
    using dims by (simp_all add: layer_has_dimensions_def)
  have "take height0 (resize_layer len height layer) = map (resize_row len) layer"
    using rows assms(3) by (simp add: resize_layer_def)
  moreover have "map (take len0) (map (resize_row len) layer) = map (\<lambda>row. row) layer"
    unfolding map_map
  proof (rule map_cong [OF refl])
    fix row assume "row \<in> set layer"
    then have "length row = len0" by (rule cols)
    then show "(take len0 \<circ> resize_row len) row = row"
      using assms(2) by (simp add: resize_row_def)
  qed
  ultimately show ?thesis by simp
qed

lemma in_every_context_identity:
  assumes "\<And>c. Some c \<in> set (all_tile_contexts s) \<Longrightarrow> f (tile_layers c) = tile_layers c"
  shows "in_every_context f s = all_tile_contexts s"
proof -
  have "map (map_option (\<lambda>c. c\<lparr>tile_layers := f (tile_layers c)\<rparr>)) (all_tile_contexts s)
          = map (\<lambda>slot. slot) (all_tile_contexts s)"
  proof (rule map_cong [OF refl])
    fix slot assume mem: "slot \<in> set (all_tile_contexts s)"
    show "map_option (\<lambda>c. c\<lparr>tile_layers := f (tile_layers c)\<rparr>) slot = slot"
    proof (cases slot)
      case None
      then show ?thesis by simp
    next
      case (Some c)
      with mem have "f (tile_layers c) = tile_layers c"
        by (simp add: assms)
      with Some show ?thesis by simp
    qed
  qed
  then show ?thesis by (simp add: in_every_context_def)
qed

lemma layers_match_mapD:
  assumes "layers_match_map s" and "Some c \<in> set (all_tile_contexts s)"
    and "layer \<in> set (tile_layers c)"
  shows "layer_has_dimensions (unat (map_length s)) (unat (map_height s)) layer"
  using assms by (force simp: layers_match_map_def)

lemma grown_layers_keep_original:
  assumes "layers_match_map s"
    and "map_length s \<le> new_length" and "map_height s \<le> new_height"
  shows "map (map_option (\<lambda>c. map (crop_layer (unat (map_length s)) (unat (map_height s)))
                                 (tile_layers c)))
           (all_tile_contexts (ResizeMap new_length new_height s))
         = map (map_option tile_layers) (all_tile_contexts s)"
proof -
  let ?grow = "resize_layer (unat new_length) (unat new_height)"
  let ?crop = "crop_layer (unat (map_length s)) (unat (map_height s))"
  have le: "unat (map_length s) \<le> unat new_length" "unat (map_height s) \<le> unat new_height"
    using assms(2,3) by (simp_all add: word_le_nat_alt)
  have "map (map_option (\<lambda>c. map ?crop (tile_layers c)))
          (all_tile_contexts (ResizeMap new_length new_height s))
        = map (map_option (\<lambda>c. map (?crop \<circ> ?grow) (tile_layers c))) (all_tile_contexts s)"
    by (simp add: ResizeMap_def in_every_context_def option.map_comp comp_def)
  also have "\<dots> = map (map_option tile_layers) (all_tile_contexts s)"
  proof (rule map_cong [OF refl])
    fix slot assume mem: "slot \<in> set (all_tile_contexts s)"
    show "map_option (\<lambda>c. map (?crop \<circ> ?grow) (tile_layers c)) slot
            = map_option tile_layers slot"
    proof (cases slot)
      case None
      then show ?thesis by simp
    next
      case (Some c)
      have "map (?crop \<circ> ?grow) (tile_layers c) = map (\<lambda>layer. layer) (tile_layers c)"
      proof (rule map_cong [OF refl])
        fix layer assume "layer \<in> set (tile_layers c)"
        with assms(1) mem Some
        have "layer_has_dimensions (unat (map_length s)) (unat (map_height s)) layer"
          by (simp add: layers_match_mapD)
        then show "(?crop \<circ> ?grow) layer = layer"
          using le by (simp add: crop_layer_def resize_layer_keeps_original)
      qed
      with Some show ?thesis by simp
    qed
  qed
  finally show ?thesis .
qed

text \<open>
  C9. Let every layer of every context have the dimensions of the map, and let the new
  length and height be at least the current ones. Then \<open>ResizeMap\<close> to the new dimensions
  followed by \<open>ResizeMap\<close> to the old ones gives back every context with every layer as
  it was, and the old length and height. In between, every layer has the new dimensions
  and holds the old layer in its first rows and columns: rows were added at the bottom and
  columns at the right.
\<close>

theorem ResizeMap_grow_then_restore:
  assumes "layers_match_map s"
    and "map_length s \<le> new_length" and "map_height s \<le> new_height"
  shows "all_tile_contexts
           (ResizeMap (map_length s) (map_height s) (ResizeMap new_length new_height s))
           = all_tile_contexts s
       \<and> map_length (ResizeMap (map_length s) (map_height s) (ResizeMap new_length new_height s))
           = map_length s
       \<and> map_height (ResizeMap (map_length s) (map_height s) (ResizeMap new_length new_height s))
           = map_height s
       \<and> layers_match_map (ResizeMap new_length new_height s)
       \<and> map (map_option (\<lambda>c. map (crop_layer (unat (map_length s)) (unat (map_height s)))
                                   (tile_layers c)))
             (all_tile_contexts (ResizeMap new_length new_height s))
           = map (map_option tile_layers) (all_tile_contexts s)"
proof -
  let ?grow = "resize_layer (unat new_length) (unat new_height)"
  let ?shrink = "resize_layer (unat (map_length s)) (unat (map_height s))"
  have le: "unat (map_length s) \<le> unat new_length" "unat (map_height s) \<le> unat new_height"
    using assms(2,3) by (simp_all add: word_le_nat_alt)
  have "all_tile_contexts
          (ResizeMap (map_length s) (map_height s) (ResizeMap new_length new_height s))
          = in_every_context (map ?shrink \<circ> map ?grow) s"
    by (simp add: ResizeMap_def in_every_context_def option.map_comp comp_def)
  also have "\<dots> = all_tile_contexts s"
  proof (rule in_every_context_identity)
    fix c assume live: "Some c \<in> set (all_tile_contexts s)"
    have "map (?shrink \<circ> ?grow) (tile_layers c) = map (\<lambda>layer. layer) (tile_layers c)"
    proof (rule map_cong [OF refl])
      fix layer assume "layer \<in> set (tile_layers c)"
      with assms(1) live
      have "layer_has_dimensions (unat (map_length s)) (unat (map_height s)) layer"
        by (rule layers_match_mapD)
      then show "(?shrink \<circ> ?grow) layer = layer"
        using le by (simp add: resize_layer_restore)
    qed
    then show "(map ?shrink \<circ> map ?grow) (tile_layers c) = tile_layers c"
      by simp
  qed
  finally have contexts: "all_tile_contexts
          (ResizeMap (map_length s) (map_height s) (ResizeMap new_length new_height s))
          = all_tile_contexts s" .
  have grown: "layers_match_map (ResizeMap new_length new_height s)"
    by (auto simp: layers_match_map_def ResizeMap_def in_every_context_def
          resize_layer_has_dimensions split: option.splits)
  have kept: "map (map_option (\<lambda>c. map (crop_layer (unat (map_length s)) (unat (map_height s)))
                                      (tile_layers c)))
                (all_tile_contexts (ResizeMap new_length new_height s))
              = map (map_option tile_layers) (all_tile_contexts s)"
    using assms by (rule grown_layers_keep_original)
  have sizes: "map_length (ResizeMap (map_length s) (map_height s)
                  (ResizeMap new_length new_height s)) = map_length s"
    "map_height (ResizeMap (map_length s) (map_height s)
                  (ResizeMap new_length new_height s)) = map_height s"
    by (simp_all add: ResizeMap_def)
  show ?thesis
    using contexts grown kept sizes by (intro conjI)
qed

theorem ResizeMap_grow_then_restore_witness:
  "layers_match_map example_map
   \<and> map_length example_map \<le> 3 \<and> map_height example_map \<le> 4
   \<and> map (map_option tile_layers) (all_tile_contexts (ResizeMap 3 4 example_map))
       = Some [[[0, 1, - 1], [2, 3, - 1], [- 1, - 1, - 1], [- 1, - 1, - 1]]] # replicate 31 None
   \<and> all_tile_contexts (ResizeMap 2 2 (ResizeMap 3 4 example_map))
       = all_tile_contexts example_map"
proof -
  have dims: "layers_match_map example_map"
    by (simp add: layers_match_map_def layer_has_dimensions_def example_map_def)
  have le: "map_length example_map \<le> 3" "map_height example_map \<le> 4"
    by (simp_all add: example_map_def)
  have sizes: "map_length example_map = 2" "map_height example_map = 2"
    by (simp_all add: example_map_def)
  have grown: "map (map_option tile_layers) (all_tile_contexts (ResizeMap 3 4 example_map))
       = Some [[[0, 1, - 1], [2, 3, - 1], [- 1, - 1, - 1], [- 1, - 1, - 1]]] # replicate 31 None"
    by code_simp
  show ?thesis
    using ResizeMap_grow_then_restore [OF dims le] dims le grown by (simp add: sizes)
qed

end
